theory Spec2Isabelle
  imports Complex_Main "HOL-Library.Multiset" "HOL-Library.Sublist"
begin

section \<open>Data model\<close>

text \<open>
  The application (\<^verbatim>\<open>app.py\<close>) keeps its tables in pandas data frames and does all
  its work inside \<^verbatim>\<open>main\<close>. A data frame is modelled as the list of its rows in
  their current order, each row paired with its index label (pandas carries the label
  of a row through selection and sorting). A frame built from a dict of columns gets
  the labels \<open>0, 1, 2, \<dots>\<close>.

  Numeric columns of dtype float64 are modelled by \<open>real\<close>: the comparisons of the
  code are exact on finite floats, and the products of the catalog are exact in
  float64. Rounding of arbitrary float products is outside the model.
\<close>

type_synonym 'r frame = "(nat \<times> 'r) list"

definition DataFrame :: "'r list \<Rightarrow> 'r frame" where
  "DataFrame rs = zip [0..<length rs] rs"

definition column :: "('r \<Rightarrow> 'a) \<Rightarrow> 'r frame \<Rightarrow> 'a list" where
  "column f df = map (\<lambda>ir. f (snd ir)) df"

text \<open>The isotope table of \<^verbatim>\<open>get_isotope_data\<close>, one field per column, in column order.\<close>

record isotope =
  Isotope :: string
  Half_Life :: real
  Production_Method :: string
  Primary_Use :: string
  Global_Production :: int
  Cost_per_GBq :: real
  Protons :: int
  Neutrons :: int
  Applications :: string

definition mk_isotope ::
  "string \<Rightarrow> real \<Rightarrow> string \<Rightarrow> string \<Rightarrow> int \<Rightarrow> real \<Rightarrow> int \<Rightarrow> int \<Rightarrow> string \<Rightarrow> isotope" where
  "mk_isotope n h m u g c p q a =
     \<lparr>Isotope = n, Half_Life = h, Production_Method = m, Primary_Use = u,
      Global_Production = g, Cost_per_GBq = c, Protons = p, Neutrons = q,
      Applications = a\<rparr>"

definition get_isotope_data :: "isotope frame" where
  "get_isotope_data = DataFrame
    [mk_isotope ''Tc-99m'' 6.0 ''Reactor'' ''Medical'' 150000 250 43 56 ''Medical imaging'',
     mk_isotope ''I-131'' 8.0 ''Reactor'' ''Medical'' 30000 150 53 78 ''Thyroid treatment'',
     mk_isotope ''Co-60'' 1925.0 ''Reactor'' ''Industrial'' 1500 50 27 33 ''Sterilization'',
     mk_isotope ''Mo-99'' 66.0 ''Reactor'' ''Medical'' 300000 200 42 57 ''Medical isotope gen'',
     mk_isotope ''Xe-133'' 5.2 ''Fission'' ''Medical'' 50000 300 54 79 ''Lung ventilation'',
     mk_isotope ''Ir-192'' 74.0 ''Reactor'' ''Industrial'' 2000 70 77 115
       ''Industrial radiography'',
     mk_isotope ''C-14'' 5730000.0 ''Accelerator'' ''Research'' 100 5000 6 8 ''Carbon dating'',
     mk_isotope ''U-235'' 703800000.0 ''Mining'' ''Energy'' 500000 0.5 92 143 ''Nuclear fuel'']"

section \<open>Boolean masks and row selection\<close>

text \<open>
  \<^verbatim>\<open>df[col] >= v\<close>, \<^verbatim>\<open>df[col] <= v\<close> and \<^verbatim>\<open>df[col].isin(vs)\<close> each build a
  boolean column; \<^verbatim>\<open>&\<close> combines two of them position by position; \<^verbatim>\<open>df[mask]\<close>
  keeps the rows whose mask entry is true.
\<close>

definition ge_mask :: "real list \<Rightarrow> real \<Rightarrow> bool list" where
  "ge_mask xs v = map (\<lambda>x. v \<le> x) xs"

definition le_mask :: "real list \<Rightarrow> real \<Rightarrow> bool list" where
  "le_mask xs v = map (\<lambda>x. x \<le> v) xs"

definition isin :: "'a list \<Rightarrow> 'a list \<Rightarrow> bool list" where
  "isin xs vs = map (\<lambda>x. x \<in> set vs) xs"

definition and_mask :: "bool list \<Rightarrow> bool list \<Rightarrow> bool list" where
  "and_mask ms ns = map2 (\<and>) ms ns"

definition select_rows :: "'r frame \<Rightarrow> bool list \<Rightarrow> 'r frame" where
  "select_rows df bs = map fst (filter snd (zip df bs))"

text \<open>Lines 166--170 of \<^verbatim>\<open>main\<close>: the filtered isotope table.\<close>

definition filter_isotopes :: "isotope frame \<Rightarrow> real \<times> real \<Rightarrow> string list \<Rightarrow> isotope frame" where
  "filter_isotopes df half_life_filter selected_uses =
     select_rows df
       (and_mask
          (and_mask (ge_mask (column Half_Life df) (fst half_life_filter))
                    (le_mask (column Half_Life df) (snd half_life_filter)))
          (isin (column Primary_Use df) selected_uses))"

text \<open>The two conditions of the filter, as a predicate on a labelled row.\<close>

definition keeps :: "real \<times> real \<Rightarrow> string list \<Rightarrow> nat \<times> isotope \<Rightarrow> bool" where
  "keeps rng uses ir =
     (fst rng \<le> Half_Life (snd ir) \<and> Half_Life (snd ir) \<le> snd rng \<and>
      Primary_Use (snd ir) \<in> set uses)"

section \<open>Derived field: market value\<close>

text \<open>
  Line 273: \<^verbatim>\<open>df['Market_Value'] = df[production] * df[cost] * 1000\<close>. The two
  columns come from the same frame, so pandas multiplies them position by position;
  the integer production column is promoted to float. The assignment adds the column
  \<^verbatim>\<open>Market_Value\<close> to \<^verbatim>\<open>df\<close>: the rows gain a field.
\<close>

record isotope_mv = isotope +
  Market_Value :: real

definition mul_columns :: "real list \<Rightarrow> real list \<Rightarrow> real list" where
  "mul_columns xs ys = map2 (*) xs ys"

definition mul_scalar :: "real list \<Rightarrow> real \<Rightarrow> real list" where
  "mul_scalar xs c = map (\<lambda>x. x * c) xs"

definition assign_Market_Value :: "isotope frame \<Rightarrow> real list \<Rightarrow> isotope_mv frame" where
  "assign_Market_Value df vs =
     map2 (\<lambda>ir v. (fst ir, isotope.extend (snd ir) (isotope_mv.fields v))) df vs"

definition with_market_value :: "isotope frame \<Rightarrow> isotope_mv frame" where
  "with_market_value df =
     assign_Market_Value df
       (mul_scalar
          (mul_columns (map real_of_int (column Global_Production df))
                       (column Cost_per_GBq df))
          1000)"

section \<open>Sorting a frame by one column\<close>

text \<open>
  \<^verbatim>\<open>df.sort_values(col, ascending=False)\<close> orders the rows by the key column, the
  largest key first, missing values (\<open>None\<close>, the NaN of a float column) last. The
  call names no \<^verbatim>\<open>kind\<close>, so pandas uses its default: it reverses the key column,
  sorts it ascending with numpy's default sort and reverses the result. numpy sorts
  a short array by insertion, which leaves equal keys in their order, so that after
  the two reversals rows of equal key are in the order of the input; pandas makes
  this promise in general only for the kinds \<^verbatim>\<open>mergesort\<close> and \<^verbatim>\<open>stable\<close>. The
  model is the insertion sort, on frames of every length: \<open>goes_before\<close> says when
  one key has to come before another, for either direction, and a row is inserted
  behind the rows that have to come before it and ahead of all others.
\<close>

fun goes_before :: "bool \<Rightarrow> real option \<Rightarrow> real option \<Rightarrow> bool" where
  "goes_before ascending (Some a) (Some b) = (if ascending then a < b else b < a)"
| "goes_before ascending (Some a) None = True"
| "goes_before ascending None b = False"

fun insert_row :: "('r \<Rightarrow> real option) \<Rightarrow> bool \<Rightarrow> nat \<times> 'r \<Rightarrow> 'r frame \<Rightarrow> 'r frame" where
  "insert_row key ascending x [] = [x]"
| "insert_row key ascending x (y # ys) =
     (if goes_before ascending (key (snd y)) (key (snd x))
      then y # insert_row key ascending x ys
      else x # y # ys)"

definition sort_values :: "('r \<Rightarrow> real option) \<Rightarrow> bool \<Rightarrow> 'r frame \<Rightarrow> 'r frame" where
  "sort_values key ascending df = foldr (insert_row key ascending) df []"

text \<open>
  Lines 273--282: the market-value column is added, the frame is sorted by it with
  \<^verbatim>\<open>ascending=False\<close> and handed to \<^verbatim>\<open>px.bar\<close> with \<^verbatim>\<open>x='Isotope'\<close>,
  \<^verbatim>\<open>y='Market_Value'\<close>, \<^verbatim>\<open>color='Primary_Use'\<close>.
\<close>

definition Market_Value_key :: "isotope_mv \<Rightarrow> real option" where
  "Market_Value_key r = Some (Market_Value r)"

definition make_market_value_bars :: "isotope frame \<Rightarrow> isotope_mv frame" where
  "make_market_value_bars df = sort_values Market_Value_key False (with_market_value df)"

definition px_bar_market :: "isotope_mv frame \<Rightarrow> (string \<times> real \<times> string) list" where
  "px_bar_market df = map (\<lambda>ir. (Isotope (snd ir), Market_Value (snd ir), Primary_Use (snd ir))) df"

section \<open>Country production\<close>

text \<open>
  A cell of a column of dtype object, as \<^verbatim>\<open>pd.read_csv\<close> yields it when a column
  mixes numbers and text: a number, a string, or the missing value NaN. The country
  frame has the three columns the code reads. Its production column holds cells at
  first and, after \<^verbatim>\<open>pd.to_numeric\<close>, floats with NaN (\<open>real option\<close>), hence the
  type parameter.
\<close>

datatype cell = Num real | Str string | NaN

record 'a country =
  Country :: cell
  Major_Isotopes :: cell
  Total_Production_TBq :: 'a

definition mk_country :: "string \<Rightarrow> string \<Rightarrow> real \<Rightarrow> cell country" where
  "mk_country c m t = \<lparr>Country = Str c, Major_Isotopes = Str m, Total_Production_TBq = Num t\<rparr>"

definition sample_country_data :: "cell country frame" where
  "sample_country_data = DataFrame
     [mk_country ''USA'' ''192I, 125I'' 30.4,
      mk_country ''Canada'' ''99Mo, 131I'' 15000.0,
      mk_country ''Germany'' ''18F, 123I'' 30.0,
      mk_country ''France'' ''99Mo, 153Sm'' 4063.5,
      mk_country ''Japan'' ''192Ir, 169Yb'' 982.4,
      mk_country ''Australia'' ''192Ir, 169Yb'' 1551.9]"

text \<open>
  \<^verbatim>\<open>load_country_data\<close> (lines 69--89). The file system is the environment: whether
  the path exists, and what \<^verbatim>\<open>pd.read_csv\<close> does on it, which is to return a frame
  or to raise. A raised Python exception is a value \<open>Exception msg\<close>; a computation
  that may raise returns \<open>exc + 'a\<close>. \<^verbatim>\<open>st.warning\<close> is modelled by the list of the
  warnings shown.
\<close>

datatype exc = Exception string

record file_system =
  path_exists :: bool
  read_csv :: "exc + cell country frame"

definition try_except :: "exc + 'a \<Rightarrow> (exc \<Rightarrow> exc + 'a) \<Rightarrow> exc + 'a" where
  "try_except body handler = (case body of Inl e \<Rightarrow> handler e | Inr v \<Rightarrow> Inr v)"

definition str_exc :: "exc \<Rightarrow> string" where
  "str_exc e = (case e of Exception msg \<Rightarrow> msg)"

definition load_country_data :: "file_system \<Rightarrow> exc + (cell country frame \<times> string list)" where
  "load_country_data fs =
     try_except
       (if path_exists fs
        then (case read_csv fs of Inl e \<Rightarrow> Inl e | Inr df \<Rightarrow> Inr (df, []))
        else Inr (sample_country_data, []))
       (\<lambda>e. Inr (sample_country_data, [''Could not load country data: '' @ str_exc e]))"

text \<open>
  Lines 303--305. \<^verbatim>\<open>country_df[col] != 'NR'\<close> is true of every cell that is not the
  string \<^verbatim>\<open>NR\<close>. \<^verbatim>\<open>pd.to_numeric(..., errors='coerce')\<close> keeps a number, parses a
  string and yields NaN where parsing fails; the parser is the library's and is a
  parameter (\<open>None\<close> where it fails). \<^verbatim>\<open>dropna()\<close> drops every row with a NaN in
  any of its columns.
\<close>

definition ne_mask :: "cell list \<Rightarrow> cell \<Rightarrow> bool list" where
  "ne_mask xs v = map (\<lambda>x. x \<noteq> v) xs"

fun coerce :: "(string \<Rightarrow> real option) \<Rightarrow> cell \<Rightarrow> real option" where
  "coerce parse (Num v) = Some v"
| "coerce parse (Str s) = parse s"
| "coerce parse NaN = None"

definition to_numeric :: "(string \<Rightarrow> real option) \<Rightarrow> cell list \<Rightarrow> real option list" where
  "to_numeric parse xs = map (coerce parse) xs"

definition assign_Total_Production :: "'a country frame \<Rightarrow> 'b list \<Rightarrow> 'b country frame" where
  "assign_Total_Production df vs =
     map2 (\<lambda>ir v. (fst ir, \<lparr>Country = Country (snd ir), Major_Isotopes = Major_Isotopes (snd ir),
                             Total_Production_TBq = v\<rparr>)) df vs"

definition dropna :: "real option country frame \<Rightarrow> real option country frame" where
  "dropna df =
     filter (\<lambda>ir. Country (snd ir) \<noteq> NaN \<and> Major_Isotopes (snd ir) \<noteq> NaN \<and>
                  Total_Production_TBq (snd ir) \<noteq> None) df"

definition clean_country_production ::
  "(string \<Rightarrow> real option) \<Rightarrow> cell country frame \<Rightarrow> real option country frame" where
  "clean_country_production parse country_df =
     (let filtered_country_df =
            select_rows country_df (ne_mask (column Total_Production_TBq country_df) (Str ''NR''));
          filtered_country_df =
            assign_Total_Production filtered_country_df
              (to_numeric parse (column Total_Production_TBq filtered_country_df))
      in dropna filtered_country_df)"

text \<open>
  Lines 307--314: the cleaned frame, sorted by production with \<^verbatim>\<open>ascending=False\<close>,
  is handed to \<^verbatim>\<open>px.bar\<close>.
\<close>

definition make_country_bars :: "real option country frame \<Rightarrow> real option country frame" where
  "make_country_bars filtered_country_df =
     sort_values Total_Production_TBq False filtered_country_df"

definition px_bar_country :: "real option country frame \<Rightarrow> (cell \<times> real option) list" where
  "px_bar_country df = map (\<lambda>ir. (Country (snd ir), Total_Production_TBq (snd ir))) df"




section \<open>The 3D view\<close>

text \<open>
  \<^verbatim>\<open>create_atomic_background\<close> (lines 115--123). numpy draws
  \<^verbatim>\<open>np.random.normal(loc, scale)\<close> as \<open>loc + scale * z\<close>, where \<open>z\<close> is the next
  standard normal variate of its generator. The generator is modelled as the
  sequence of the variates it will return, and the number of variates taken so far
  is threaded through the loops. Every call of the code passes the mean 0 and the
  deviation 0.1. Python's \<^verbatim>\<open>i/10\<close> is true division.
\<close>

type_synonym random_source = "nat \<Rightarrow> real"

definition normal :: "random_source \<Rightarrow> real \<Rightarrow> real \<Rightarrow> nat \<Rightarrow> real \<times> nat" where
  "normal src loc scale k = (loc + scale * src k, Suc k)"

record background =
  bg_x :: "real list"
  bg_y :: "real list"
  bg_z :: "real list"

type_synonym bg_state = "real list \<times> real list \<times> real list \<times> nat"

definition ring_point :: "random_source \<Rightarrow> nat \<Rightarrow> nat \<Rightarrow> bg_state \<Rightarrow> bg_state" where
  "ring_point src i j s =
     (case s of (x, y, z, k) \<Rightarrow>
        let angle = 2 * pi * real j / 10;
            (e1, k1) = normal src 0 0.1 k;
            (e2, k2) = normal src 0 0.1 k1;
            (e3, k3) = normal src 0 0.1 k2
        in (x @ [cos angle + e1], y @ [sin angle + e2], z @ [real i / 10 + e3], k3))"

definition create_atomic_background :: "random_source \<Rightarrow> background" where
  "create_atomic_background src =
     (case fold (\<lambda>i. fold (ring_point src i) [0..<10]) [0..<100] ([], [], [], 0) of
        (x, y, z, k) \<Rightarrow> \<lparr>bg_x = x, bg_y = y, bg_z = z\<rparr>)"

text \<open>
  Line 195: \<^verbatim>\<open>np.log10\<close> of the half-life column. numpy's \<^verbatim>\<open>log10\<close> does not
  raise: on zero it returns \<^verbatim>\<open>-inf\<close> and on a negative number \<^verbatim>\<open>nan\<close> (with a
  warning at most).
\<close>

datatype npfloat = Finite real | NegInf | NotANumber

definition np_log10 :: "real \<Rightarrow> npfloat" where
  "np_log10 v = (if 0 < v then Finite (log 10 v) else if v = 0 then NegInf else NotANumber)"

text \<open>
  The arguments of the \<^verbatim>\<open>Scatter3d\<close> trace of the isotopes (lines 192--212); the
  hover text is kept as the values it is formatted from.
\<close>

record isotope_trace =
  trace_x :: "int list"
  trace_y :: "int list"
  trace_z :: "npfloat list"
  trace_color :: "int list"
  trace_text :: "string list"
  trace_hover :: "(string \<times> real \<times> string \<times> int) list"

definition make_3d_points :: "isotope frame \<Rightarrow> isotope_trace" where
  "make_3d_points filtered_df =
     \<lparr>trace_x = column Protons filtered_df,
      trace_y = column Neutrons filtered_df,
      trace_z = map np_log10 (column Half_Life filtered_df),
      trace_color = column Global_Production filtered_df,
      trace_text = column Isotope filtered_df,
      trace_hover = column (\<lambda>r. (Isotope r, Half_Life r, Primary_Use r, Global_Production r))
                      filtered_df\<rparr>"

section \<open>Download and economic comparison\<close>

text \<open>
  Line 249: \<^verbatim>\<open>df.to_csv()\<close>. The serialised table is kept as its header and its
  records, one field per column after the index label; how numbers are printed and
  fields quoted is the library's.
\<close>

datatype field = FInt int | FFloat real | FStr string

record csv =
  csv_header :: "string list"
  csv_records :: "field list list"

definition isotope_columns :: "string list" where
  "isotope_columns =
     [''Isotope'', ''Half-Life'', ''Production_Method'', ''Primary_Use'',
      ''Global_Production (TBq/year)'', ''Cost_per_GBq (USD)'', ''Protons'', ''Neutrons'',
      ''Applications'']"

definition isotope_fields :: "isotope \<Rightarrow> field list" where
  "isotope_fields r =
     [FStr (Isotope r), FFloat (Half_Life r), FStr (Production_Method r), FStr (Primary_Use r),
      FInt (Global_Production r), FFloat (Cost_per_GBq r), FInt (Protons r), FInt (Neutrons r),
      FStr (Applications r)]"

definition to_csv :: "isotope frame \<Rightarrow> csv" where
  "to_csv df =
     \<lparr>csv_header = '''' # isotope_columns,
      csv_records = map (\<lambda>ir. FInt (int (fst ir)) # isotope_fields (snd ir)) df\<rparr>"

text \<open>
  Lines 258--268: \<^verbatim>\<open>px.scatter\<close> receives the frame with the cost column as x, the
  production column as y, the half-life as size and the use as colour, and is asked
  for logarithmic axes. The code checks nothing before the call.
\<close>

record scatter_point =
  pt_x :: real
  pt_y :: int
  pt_size :: real
  pt_color :: string
  pt_hover_name :: string

record px_scatter =
  points :: "scatter_point list"
  log_x :: bool
  log_y :: bool

definition make_scatter_points :: "isotope frame \<Rightarrow> px_scatter" where
  "make_scatter_points df =
     \<lparr>points = column (\<lambda>r. \<lparr>pt_x = Cost_per_GBq r, pt_y = Global_Production r,
                               pt_size = Half_Life r, pt_color = Primary_Use r,
                               pt_hover_name = Isotope r\<rparr>) df,
      log_x = True, log_y = True\<rparr>"

section \<open>The page\<close>

text \<open>
  \<^verbatim>\<open>main\<close> reads the sidebar widgets and renders the tabs in order. The model
  returns what each tab hands to its renderer. The filter widgets are the half-life
  slider and the multiselect of uses. The details panel of the first tab, which
  looks the selected isotope up in the unfiltered table, and the fixed text of the
  other tabs read none of these widgets and are left out.
\<close>

record widgets =
  view_3d :: bool
  half_life_filter :: "real \<times> real"
  selected_uses :: "string list"

record environment =
  env_random :: random_source
  env_files :: file_system
  env_parse :: "string \<Rightarrow> real option"

record page =
  fig_background :: "background option"
  fig_isotopes :: isotope_trace
  download_data :: csv
  fig_scatter :: px_scatter
  fig_market_value :: "(string \<times> real \<times> string) list"
  fig_country :: "(cell \<times> real option) list"
  shown_warnings :: "string list"

definition main :: "widgets \<Rightarrow> environment \<Rightarrow> exc + page" where
  "main w env =
     (let df = get_isotope_data;
          filtered_df = filter_isotopes df (half_life_filter w) (selected_uses w);
          atomic_bg = (if view_3d w then Some (create_atomic_background (env_random env)) else None);
          isotopes = make_3d_points filtered_df;
          download = to_csv df;
          scatter = make_scatter_points df;
          market = px_bar_market (make_market_value_bars df)
      in case load_country_data (env_files env) of
           Inl e \<Rightarrow> Inl e
         | Inr (country_df, warnings) \<Rightarrow>
             Inr \<lparr>fig_background = atomic_bg,
                  fig_isotopes = isotopes,
                  download_data = download,
                  fig_scatter = scatter,
                  fig_market_value = market,
                  fig_country =
                    px_bar_country
                      (make_country_bars
                         (clean_country_production (env_parse env) country_df)),
                  shown_warnings = warnings\<rparr>)"

text \<open>
  The widgets as the page first shows them (the defaults at lines 142--146), and an
  environment in which the CSV file is absent.
\<close>

definition default_widgets :: widgets where
  "default_widgets =
     \<lparr>view_3d = True, half_life_filter = (1.0, 100000.0),
      selected_uses = [''Medical'', ''Industrial'']\<rparr>"

definition offline_environment :: environment where
  "offline_environment =
     \<lparr>env_random = (\<lambda>k. 0),
      env_files = \<lparr>path_exists = False, read_csv = Inl (Exception ''No such file'')\<rparr>,
      env_parse = Map.empty\<rparr>"

section \<open>Properties\<close>

lemma select_rows_map:
  "select_rows df (map p df) = filter p df"
  unfolding select_rows_def
  by (induction df) auto

lemma filter_isotopes_mask:
  "and_mask
     (and_mask (ge_mask (column Half_Life df) lo) (le_mask (column Half_Life df) hi))
     (isin (column Primary_Use df) uses)
   = map (keeps (lo, hi) uses) df"
  unfolding and_mask_def ge_mask_def le_mask_def isin_def column_def keeps_def
  by (induction df) auto

lemma filter_isotopes_filter:
  "filter_isotopes df rng uses = filter (keeps rng uses) df"
  unfolding filter_isotopes_def
  using filter_isotopes_mask [of df "fst rng" "snd rng" uses]
  by (simp add: select_rows_map)

text \<open>
  C1. For every isotope table, half-life range \<open>(lo, hi)\<close> and list of allowed uses,
  the filter returns exactly the rows with \<open>lo \<le> half-life \<le> hi\<close> whose use is among
  the allowed ones, in the order of the input (a subsequence of the input); with no
  allowed use the result is empty. On the catalog, the range \<open>(1, 100000)\<close> with the
  uses Medical and Industrial keeps six rows and drops C-14 and U-235.
\<close>

theorem filter_isotopes_exact:
  "filter_isotopes df (lo, hi) uses =
     filter (\<lambda>ir. lo \<le> Half_Life (snd ir) \<and> Half_Life (snd ir) \<le> hi \<and>
                  Primary_Use (snd ir) \<in> set uses) df
   \<and> subseq (filter_isotopes df (lo, hi) uses) df
   \<and> filter_isotopes df (lo, hi) [] = []"
proof -
  have eq: "filter_isotopes df (lo, hi) us = filter (keeps (lo, hi) us) df" for us
    by (rule filter_isotopes_filter)
  have "keeps (lo, hi) uses =
          (\<lambda>ir. lo \<le> Half_Life (snd ir) \<and> Half_Life (snd ir) \<le> hi \<and>
                 Primary_Use (snd ir) \<in> set uses)"
    by (rule ext) (simp add: keeps_def)
  moreover have "filter (keeps (lo, hi) []) df = []"
    by (simp add: keeps_def)
  ultimately show ?thesis
    by (simp add: eq)
qed

theorem filter_isotopes_exact_witness:
  "column Isotope
     (filter_isotopes get_isotope_data (1, 100000) [''Medical'', ''Industrial''])
     = [''Tc-99m'', ''I-131'', ''Co-60'', ''Mo-99'', ''Xe-133'', ''Ir-192'']
   \<and> filter_isotopes get_isotope_data (1, 100000) [] = []"
proof -
  note spec = filter_isotopes_exact [of get_isotope_data 1 100000 "[''Medical'', ''Industrial'']"]
  from spec have
    "filter_isotopes get_isotope_data (1, 100000) [''Medical'', ''Industrial''] =
       filter (\<lambda>ir. 1 \<le> Half_Life (snd ir) \<and> Half_Life (snd ir) \<le> 100000 \<and>
                    Primary_Use (snd ir) \<in> set [''Medical'', ''Industrial'']) get_isotope_data"
    by (rule conjunct1)
  then have "column Isotope
     (filter_isotopes get_isotope_data (1, 100000) [''Medical'', ''Industrial''])
     = [''Tc-99m'', ''I-131'', ''Co-60'', ''Mo-99'', ''Xe-133'', ''Ir-192'']"
    by (simp add: get_isotope_data_def DataFrame_def mk_isotope_def column_def)
  moreover from spec have "filter_isotopes get_isotope_data (1, 100000) [] = []"
    by simp
  ultimately show ?thesis by simp
qed

lemma with_market_value_map:
  "with_market_value df =
     map (\<lambda>ir. (fst ir, isotope.extend (snd ir)
            (isotope_mv.fields
               (real_of_int (Global_Production (snd ir)) * Cost_per_GBq (snd ir) * 1000)))) df"
  unfolding with_market_value_def assign_Market_Value_def mul_scalar_def mul_columns_def column_def
  by (induction df) auto

text \<open>
  C2. Every row of the table with the derived column has
  \<open>market value = global production * cost per unit * 1000\<close>, the other columns and
  the row labels being those of the input; a row with production 150000 and cost 250
  (Tc-99m in the catalog) has market value 37,500,000,000.
\<close>

theorem market_value_formula:
  "length (with_market_value df) = length df
   \<and> (\<forall>ir \<in> set (with_market_value df).
         Market_Value (snd ir) =
           real_of_int (Global_Production (snd ir)) * Cost_per_GBq (snd ir) * 1000
         \<and> (Global_Production (snd ir) = 150000 \<and> Cost_per_GBq (snd ir) = 250
              \<longrightarrow> Market_Value (snd ir) = 37500000000))
   \<and> map (\<lambda>ir. (fst ir, isotope.truncate (snd ir))) (with_market_value df) = df"
proof -
  have len: "length (with_market_value df) = length df"
    by (simp add: with_market_value_map)
  have val: "Market_Value (snd ir) =
           real_of_int (Global_Production (snd ir)) * Cost_per_GBq (snd ir) * 1000"
    if "ir \<in> set (with_market_value df)" for ir
    using that by (auto simp: with_market_value_map isotope.defs isotope_mv.defs)
  have tr: "isotope.truncate (isotope.extend r (isotope_mv.fields v)) = r"
    for r :: isotope and v
    by (simp add: isotope.defs isotope_mv.defs)
  have old: "map (\<lambda>ir. (fst ir, isotope.truncate (snd ir))) (with_market_value df) = df"
    by (simp add: with_market_value_map comp_def tr)
  from val have "\<forall>ir \<in> set (with_market_value df).
         Market_Value (snd ir) =
           real_of_int (Global_Production (snd ir)) * Cost_per_GBq (snd ir) * 1000
         \<and> (Global_Production (snd ir) = 150000 \<and> Cost_per_GBq (snd ir) = 250
              \<longrightarrow> Market_Value (snd ir) = 37500000000)"
    by auto
  with len old show ?thesis by blast
qed

theorem market_value_formula_witness:
  "hd (with_market_value get_isotope_data) \<in> set (with_market_value get_isotope_data)
   \<and> Isotope (snd (hd (with_market_value get_isotope_data))) = ''Tc-99m''
   \<and> Global_Production (snd (hd (with_market_value get_isotope_data))) = 150000
   \<and> Cost_per_GBq (snd (hd (with_market_value get_isotope_data))) = 250
   \<and> Market_Value (snd (hd (with_market_value get_isotope_data))) = 37500000000"
proof -
  let ?W = "with_market_value get_isotope_data"
  have shape: "hd ?W \<in> set ?W \<and> Isotope (snd (hd ?W)) = ''Tc-99m''
      \<and> Global_Production (snd (hd ?W)) = 150000 \<and> Cost_per_GBq (snd (hd ?W)) = 250"
    by (simp add: with_market_value_map get_isotope_data_def DataFrame_def mk_isotope_def
        isotope.defs isotope_mv.defs)
  with market_value_formula [of get_isotope_data]
  have "Market_Value (snd (hd ?W)) = 37500000000"
    by blast
  with shape show ?thesis by blast
qed

lemma map2_same:
  "map2 h xs (map g xs) = map (\<lambda>x. h x (g x)) xs"
  by (induction xs) auto

lemma clean_country_production_stages:
  "clean_country_production parse df =
     dropna
       (map (\<lambda>ir. (fst ir, \<lparr>Country = Country (snd ir), Major_Isotopes = Major_Isotopes (snd ir),
                             Total_Production_TBq = coerce parse (Total_Production_TBq (snd ir))\<rparr>))
          (filter (\<lambda>ir. Total_Production_TBq (snd ir) \<noteq> Str ''NR'') df))"
proof -
  have sel: "select_rows df (ne_mask (column Total_Production_TBq df) (Str ''NR'')) =
               filter (\<lambda>ir. Total_Production_TBq (snd ir) \<noteq> Str ''NR'') df"
    using select_rows_map [of df "\<lambda>ir. Total_Production_TBq (snd ir) \<noteq> Str ''NR''"]
    by (simp add: ne_mask_def column_def comp_def)
  have asg: "assign_Total_Production xs (to_numeric parse (column Total_Production_TBq xs)) =
               map (\<lambda>ir. (fst ir, \<lparr>Country = Country (snd ir),
                             Major_Isotopes = Major_Isotopes (snd ir),
                             Total_Production_TBq = coerce parse (Total_Production_TBq (snd ir))\<rparr>)) xs"
    for xs :: "cell country frame"
    by (simp add: assign_Total_Production_def to_numeric_def column_def map2_same)
  show ?thesis
    by (simp add: clean_country_production_def sel asg)
qed

text \<open>
  C3. The cleaning first drops the rows whose production is the sentinel \<^verbatim>\<open>NR\<close>,
  then coerces the production of the remaining rows to numbers and drops the rows
  where that fails. For every input and every parser, each row of the result comes
  from an input row with the same label, country and isotopes, whose production was
  not the sentinel and was coerced to the number the result carries; so no result row
  was a sentinel row and none has a non-numeric production. A table of the single row
  \<open>(X, NR)\<close> is cleaned to the empty table. The last part gives the stages in their
  order: the sentinel rows go first, the rest is coerced, and the rows left with a
  missing value are dropped.
\<close>

theorem clean_country_production_sound:
  "(\<forall>out \<in> set (clean_country_production parse df).
      \<exists>ir \<in> set df.
        fst ir = fst out \<and> Country (snd ir) = Country (snd out) \<and>
        Major_Isotopes (snd ir) = Major_Isotopes (snd out) \<and>
        Total_Production_TBq (snd ir) \<noteq> Str ''NR'' \<and>
        (\<exists>v. Total_Production_TBq (snd out) = Some v \<and>
             coerce parse (Total_Production_TBq (snd ir)) = Some v))
   \<and> clean_country_production parse
        (DataFrame [\<lparr>Country = Str x, Major_Isotopes = m, Total_Production_TBq = Str ''NR''\<rparr>])
      = []
   \<and> clean_country_production parse df =
       dropna
         (map (\<lambda>ir. (fst ir,
                  \<lparr>Country = Country (snd ir), Major_Isotopes = Major_Isotopes (snd ir),
                   Total_Production_TBq = coerce parse (Total_Production_TBq (snd ir))\<rparr>))
            (filter (\<lambda>ir. Total_Production_TBq (snd ir) \<noteq> Str ''NR'') df))"
proof -
  have one: "clean_country_production parse
        (DataFrame [\<lparr>Country = Str x, Major_Isotopes = m, Total_Production_TBq = Str ''NR''\<rparr>])
      = []"
    by (simp add: clean_country_production_stages DataFrame_def dropna_def)
  have "\<exists>ir \<in> set df.
        fst ir = fst out \<and> Country (snd ir) = Country (snd out) \<and>
        Major_Isotopes (snd ir) = Major_Isotopes (snd out) \<and>
        Total_Production_TBq (snd ir) \<noteq> Str ''NR'' \<and>
        (\<exists>v. Total_Production_TBq (snd out) = Some v \<and>
             coerce parse (Total_Production_TBq (snd ir)) = Some v)"
    if "out \<in> set (clean_country_production parse df)" for out
    using that by (force simp: clean_country_production_stages dropna_def)
  with one clean_country_production_stages [of parse df] show ?thesis by blast
qed

theorem clean_country_production_sound_witness:
  "clean_country_production (\<lambda>s. if s = ''30.4'' then Some 30.4 else None)
     (DataFrame
        [\<lparr>Country = Str ''USA'', Major_Isotopes = Str ''192I'', Total_Production_TBq = Str ''30.4''\<rparr>,
         \<lparr>Country = Str ''Chile'', Major_Isotopes = Str ''131I'', Total_Production_TBq = Str ''NR''\<rparr>,
         \<lparr>Country = Str ''Peru'', Major_Isotopes = Str ''99Mo'', Total_Production_TBq = Str ''n/a''\<rparr>,
         \<lparr>Country = Str ''India'', Major_Isotopes = Str ''60Co'', Total_Production_TBq = Num 5\<rparr>])
     = [(0, \<lparr>Country = Str ''USA'', Major_Isotopes = Str ''192I'',
              Total_Production_TBq = Some 30.4\<rparr>),
        (3, \<lparr>Country = Str ''India'', Major_Isotopes = Str ''60Co'',
              Total_Production_TBq = Some 5\<rparr>)]
   \<and> (\<exists>ir \<in> set (DataFrame
        [\<lparr>Country = Str ''USA'', Major_Isotopes = Str ''192I'', Total_Production_TBq = Str ''30.4''\<rparr>,
         \<lparr>Country = Str ''Chile'', Major_Isotopes = Str ''131I'', Total_Production_TBq = Str ''NR''\<rparr>,
         \<lparr>Country = Str ''Peru'', Major_Isotopes = Str ''99Mo'', Total_Production_TBq = Str ''n/a''\<rparr>,
         \<lparr>Country = Str ''India'', Major_Isotopes = Str ''60Co'', Total_Production_TBq = Num 5\<rparr>]).
        fst ir = 0 \<and> Country (snd ir) = Str ''USA'' \<and> Total_Production_TBq (snd ir) \<noteq> Str ''NR'')"
proof -
  let ?P = "\<lambda>s. if s = ''30.4'' then Some (30.4 :: real) else None"
  let ?D = "DataFrame
        [\<lparr>Country = Str ''USA'', Major_Isotopes = Str ''192I'', Total_Production_TBq = Str ''30.4''\<rparr>,
         \<lparr>Country = Str ''Chile'', Major_Isotopes = Str ''131I'', Total_Production_TBq = Str ''NR''\<rparr>,
         \<lparr>Country = Str ''Peru'', Major_Isotopes = Str ''99Mo'', Total_Production_TBq = Str ''n/a''\<rparr>,
         \<lparr>Country = Str ''India'', Major_Isotopes = Str ''60Co'', Total_Production_TBq = Num 5\<rparr>]"
  let ?out = "(0 :: nat, \<lparr>Country = Str ''USA'', Major_Isotopes = Str ''192I'',
              Total_Production_TBq = Some (30.4 :: real)\<rparr>)"
  have res: "clean_country_production ?P ?D =
      [?out, (3, \<lparr>Country = Str ''India'', Major_Isotopes = Str ''60Co'',
              Total_Production_TBq = Some 5\<rparr>)]"
    by (simp add: clean_country_production_stages DataFrame_def dropna_def del: not_None_eq)
  then have "?out \<in> set (clean_country_production ?P ?D)"
    by simp
  with clean_country_production_sound [of ?P ?D]
  have "\<exists>ir \<in> set ?D.
        fst ir = fst ?out \<and> Country (snd ir) = Country (snd ?out) \<and>
        Major_Isotopes (snd ir) = Major_Isotopes (snd ?out) \<and>
        Total_Production_TBq (snd ir) \<noteq> Str ''NR'' \<and>
        (\<exists>v. Total_Production_TBq (snd ?out) = Some v \<and>
             coerce ?P (Total_Production_TBq (snd ir)) = Some v)"
    by blast
  then have "\<exists>ir \<in> set ?D. fst ir = 0 \<and> Country (snd ir) = Str ''USA'' \<and>
      Total_Production_TBq (snd ir) \<noteq> Str ''NR''"
    by auto
  with res show ?thesis by blast
qed

lemma length_DataFrame: "length (DataFrame rs) = length rs"
  by (simp add: DataFrame_def)

text \<open>
  C7. Loading the country data never raises: for every state of the file system the
  call returns a frame, with at most one warning shown. When the file is missing, or
  reading it raises, the frame returned is the fixed sample of six countries.
\<close>

theorem load_country_data_never_raises:
  "\<exists>df ws. load_country_data fs = Inr (df, ws) \<and> length ws \<le> 1 \<and>
     (\<not> path_exists fs \<or> isl (read_csv fs)
        \<longrightarrow> df = sample_country_data \<and> length df = 6)"
proof (cases "path_exists fs")
  case False
  then show ?thesis
    by (simp add: load_country_data_def try_except_def sample_country_data_def length_DataFrame)
next
  case True
  then show ?thesis
    by (cases "read_csv fs")
       (simp_all add: load_country_data_def try_except_def sample_country_data_def length_DataFrame)
qed

theorem load_country_data_never_raises_witness:
  "isl (read_csv \<lparr>path_exists = True, read_csv = Inl (Exception ''Error tokenizing data'')\<rparr>)
   \<and> load_country_data \<lparr>path_exists = True, read_csv = Inl (Exception ''Error tokenizing data'')\<rparr>
       = Inr (sample_country_data,
              [''Could not load country data: Error tokenizing data''])
   \<and> load_country_data \<lparr>path_exists = False, read_csv = Inl (Exception ''No such file'')\<rparr>
       = Inr (sample_country_data, [])
   \<and> length sample_country_data = 6"
proof -
  let ?fs = "\<lparr>path_exists = True, read_csv = Inl (Exception ''Error tokenizing data'')\<rparr>"
  let ?gs = "\<lparr>path_exists = False, read_csv = Inl (Exception ''No such file'')\<rparr>"
  from load_country_data_never_raises [of ?fs]
  obtain df ws where a: "load_country_data ?fs = Inr (df, ws)"
    and b: "df = sample_country_data" "length df = 6"
    by auto
  have w: "load_country_data ?fs =
      Inr (sample_country_data, [''Could not load country data: Error tokenizing data''])"
    by (simp add: load_country_data_def try_except_def str_exc_def)
  from load_country_data_never_raises [of ?gs]
  have c: "load_country_data ?gs = Inr (sample_country_data, [])"
    by (auto simp: load_country_data_def try_except_def)
  from a b w c show ?thesis by simp
qed

lemma fold_ring_point:
  "fold (ring_point src i) [0..<m] (x, y, z, k) =
     (x @ map (\<lambda>j. cos (2 * pi * real j / 10) + (0 + 0.1 * src (k + 3 * j))) [0..<m],
      y @ map (\<lambda>j. sin (2 * pi * real j / 10) + (0 + 0.1 * src (k + 3 * j + 1))) [0..<m],
      z @ map (\<lambda>j. real i / 10 + (0 + 0.1 * src (k + 3 * j + 2))) [0..<m],
      k + 3 * m)"
  by (induction m) (simp_all add: ring_point_def normal_def Let_def)

lemma fold_rings:
  "fold (\<lambda>i. fold (ring_point src i) [0..<m]) [0..<n] (x, y, z, k) =
     (x @ concat (map (\<lambda>i. map (\<lambda>j. cos (2 * pi * real j / 10)
                                        + (0 + 0.1 * src (k + 3 * m * i + 3 * j))) [0..<m]) [0..<n]),
      y @ concat (map (\<lambda>i. map (\<lambda>j. sin (2 * pi * real j / 10)
                                        + (0 + 0.1 * src (k + 3 * m * i + 3 * j + 1))) [0..<m]) [0..<n]),
      z @ concat (map (\<lambda>i. map (\<lambda>j. real i / 10
                                        + (0 + 0.1 * src (k + 3 * m * i + 3 * j + 2))) [0..<m]) [0..<n]),
      k + 3 * m * n)"
proof (induction n)
  case 0
  show ?case by simp
next
  case (Suc n)
  have "k + 3 * m * n + 3 * m = k + 3 * m * Suc n" by simp
  with Suc show ?case
    by (simp add: fold_ring_point)
qed

lemma length_concat_grid:
  "length (concat (map (\<lambda>i. map (f i) [0..<m]) [0..<n])) = n * m"
  by (induction n) simp_all

lemma nth_concat_grid:
  "i < n \<Longrightarrow> j < m \<Longrightarrow> concat (map (\<lambda>i. map (f i) [0..<m]) [0..<n]) ! (i * m + j) = f i j"
proof (induction n)
  case 0
  then show ?case by simp
next
  case (Suc n)
  show ?case
  proof (cases "i < n")
    case True
    then have "Suc i \<le> n" by simp
    then have "Suc i * m \<le> n * m" by (rule mult_le_mono1)
    with \<open>j < m\<close> have "i * m + j < n * m" by simp
    with True Suc show ?thesis
      by (simp add: nth_append length_concat_grid)
  next
    case False
    with Suc.prems have "i = n" by simp
    with \<open>j < m\<close> show ?thesis
      by (simp add: nth_append length_concat_grid)
  qed
qed

lemma create_atomic_background_closed:
  "create_atomic_background src =
     \<lparr>bg_x = concat (map (\<lambda>i. map (\<lambda>j. cos (2 * pi * real j / 10)
                                        + (0 + 0.1 * src (3 * 10 * i + 3 * j))) [0..<10]) [0..<100]),
      bg_y = concat (map (\<lambda>i. map (\<lambda>j. sin (2 * pi * real j / 10)
                                        + (0 + 0.1 * src (3 * 10 * i + 3 * j + 1))) [0..<10]) [0..<100]),
      bg_z = concat (map (\<lambda>i. map (\<lambda>j. real i / 10
                                        + (0 + 0.1 * src (3 * 10 * i + 3 * j + 2))) [0..<10]) [0..<100])\<rparr>"
  unfolding create_atomic_background_def fold_rings
  by (simp only: prod.case append_Nil add_0)

text \<open>
  C8. The background has exactly 1000 points, one for each ring \<open>i < 100\<close> and each
  step \<open>j < 10\<close>, at position \<open>10 * i + j\<close>. Its coordinates are
  \<open>cos (2\<pi>j/10) + \<epsilon>\<close>, \<open>sin (2\<pi>j/10) + \<epsilon>\<close> and \<open>i/10 + \<epsilon>\<close>. Every \<open>\<epsilon>\<close> is a normal
  draw of its own with mean 0 and deviation 0.1, that is \<open>0 + 0.1 * z\<close> for a
  standard normal variate \<open>z\<close> that no other coordinate uses: the three variates of
  point \<open>k\<close> are the variates number \<open>3k\<close>, \<open>3k + 1\<close> and \<open>3k + 2\<close> of the generator.
\<close>

theorem create_atomic_background_points:
  "length (bg_x (create_atomic_background src)) = 1000
   \<and> length (bg_y (create_atomic_background src)) = 1000
   \<and> length (bg_z (create_atomic_background src)) = 1000
   \<and> (\<forall>i < 100. \<forall>j < 10.
        bg_x (create_atomic_background src) ! (10 * i + j) =
          cos (2 * pi * real j / 10) + (0 + 0.1 * src (3 * (10 * i + j)))
      \<and> bg_y (create_atomic_background src) ! (10 * i + j) =
          sin (2 * pi * real j / 10) + (0 + 0.1 * src (3 * (10 * i + j) + 1))
      \<and> bg_z (create_atomic_background src) ! (10 * i + j) =
          real i / 10 + (0 + 0.1 * src (3 * (10 * i + j) + 2)))"
proof -
  have len: "length (bg_x (create_atomic_background src)) = 1000"
    "length (bg_y (create_atomic_background src)) = 1000"
    "length (bg_z (create_atomic_background src)) = 1000"
    unfolding create_atomic_background_closed background.simps length_concat_grid
    by simp_all
  have pt: "bg_x (create_atomic_background src) ! (10 * i + j) =
          cos (2 * pi * real j / 10) + (0 + 0.1 * src (3 * (10 * i + j)))
      \<and> bg_y (create_atomic_background src) ! (10 * i + j) =
          sin (2 * pi * real j / 10) + (0 + 0.1 * src (3 * (10 * i + j) + 1))
      \<and> bg_z (create_atomic_background src) ! (10 * i + j) =
          real i / 10 + (0 + 0.1 * src (3 * (10 * i + j) + 2))"
    if "i < 100" "j < 10" for i j
  proof -
    have ix: "10 * i + j = i * 10 + j" by simp
    have a: "3 * 10 * i + 3 * j = 3 * (i * 10 + j)" by simp
    from that show ?thesis
      unfolding ix create_atomic_background_closed background.simps
      by (simp only: nth_concat_grid a)
  qed
  from len pt show ?thesis by blast
qed

theorem create_atomic_background_points_witness:
  "(3::nat) < 100 \<and> (5::nat) < 10
   \<and> length (bg_x (create_atomic_background (\<lambda>n. 10))) = 1000
   \<and> bg_x (create_atomic_background (\<lambda>n. 10)) ! 35 = 0
   \<and> bg_y (create_atomic_background (\<lambda>n. 10)) ! 35 = 1
   \<and> bg_z (create_atomic_background (\<lambda>n. 10)) ! 35 = 13 / 10"
proof -
  have h: "(3::nat) < 100" "(5::nat) < 10" by simp_all
  from create_atomic_background_points [of "\<lambda>n. 10"] h
  have "bg_x (create_atomic_background (\<lambda>n. 10)) ! (10 * 3 + 5)
          = cos (2 * pi * real 5 / 10) + (0 + 0.1 * 10)
      \<and> bg_y (create_atomic_background (\<lambda>n. 10)) ! (10 * 3 + 5)
          = sin (2 * pi * real 5 / 10) + (0 + 0.1 * 10)
      \<and> bg_z (create_atomic_background (\<lambda>n. 10)) ! (10 * 3 + 5) = real 3 / 10 + (0 + 0.1 * 10)"
    by blast
  moreover have "length (bg_x (create_atomic_background (\<lambda>n. 10))) = 1000"
    using create_atomic_background_points [of "\<lambda>n. 10"] by blast
  ultimately show ?thesis using h by simp
qed


















lemma load_country_data_Inr:
  "\<exists>df ws. load_country_data fs = Inr (df, ws)"
  by (cases "read_csv fs") (simp_all add: load_country_data_def try_except_def)

lemma main_Inr:
  "\<exists>country_df ws.
     load_country_data (env_files env) = Inr (country_df, ws) \<and>
     main w env =
       Inr \<lparr>fig_background =
              (if view_3d w then Some (create_atomic_background (env_random env)) else None),
            fig_isotopes =
              make_3d_points
                (filter_isotopes get_isotope_data (half_life_filter w) (selected_uses w)),
            download_data = to_csv get_isotope_data,
            fig_scatter = make_scatter_points get_isotope_data,
            fig_market_value =
              px_bar_market (make_market_value_bars get_isotope_data),
            fig_country =
              px_bar_country
                (make_country_bars
                   (clean_country_production (env_parse env) country_df)),
            shown_warnings = ws\<rparr>"
proof -
  from load_country_data_Inr obtain df ws
    where l: "load_country_data (env_files env) = Inr (df, ws)" by blast
  then show ?thesis
    by (simp add: main_def Let_def)
qed

text \<open>
  C6. The logarithm of the half-life is taken without any check and never fails:
  it is \<open>log10 v\<close> for \<open>v > 0\<close>, \<open>-inf\<close> for \<open>v = 0\<close> and NaN for \<open>v < 0\<close>. It is
  applied to the rows that passed the half-life filter only, so whenever the lower
  bound of the filter is positive every z coordinate of the 3D trace is a finite
  logarithm. The log-log scatter receives the cost and production columns of the
  unfiltered table as they are, with no check of their sign.
\<close>

theorem np_log10_unchecked:
  "(0 < v \<longrightarrow> np_log10 v = Finite (log 10 v))
   \<and> (v = 0 \<longrightarrow> np_log10 v = NegInf)
   \<and> (v < 0 \<longrightarrow> np_log10 v = NotANumber)
   \<and> (0 < lo \<longrightarrow>
        trace_z (make_3d_points (filter_isotopes df (lo, hi) uses)) =
          map (\<lambda>ir. Finite (log 10 (Half_Life (snd ir)))) (filter_isotopes df (lo, hi) uses))
   \<and> map pt_x (points (make_scatter_points df)) = column Cost_per_GBq df
   \<and> map pt_y (points (make_scatter_points df)) = column Global_Production df"
proof -
  have z: "trace_z (make_3d_points (filter_isotopes df (lo, hi) uses)) =
          map (\<lambda>ir. Finite (log 10 (Half_Life (snd ir)))) (filter_isotopes df (lo, hi) uses)"
    if "0 < lo"
    using that
    by (auto simp: make_3d_points_def column_def filter_isotopes_filter keeps_def np_log10_def)
  have "map pt_x (points (make_scatter_points df)) = column Cost_per_GBq df"
    "map pt_y (points (make_scatter_points df)) = column Global_Production df"
    by (simp_all add: make_scatter_points_def column_def comp_def)
  with z show ?thesis
    by (simp add: np_log10_def)
qed

theorem np_log10_unchecked_witness:
  "(0 :: real) < 1
   \<and> trace_z (make_3d_points (filter_isotopes get_isotope_data (1, 100000) [''Industrial'']))
       = [Finite (log 10 1925), Finite (log 10 74)]
   \<and> np_log10 1 = Finite 0"
proof -
  have f: "filter_isotopes get_isotope_data (1, 100000) [''Industrial''] =
      [(2, mk_isotope ''Co-60'' 1925.0 ''Reactor'' ''Industrial'' 1500 50 27 33 ''Sterilization''),
       (5, mk_isotope ''Ir-192'' 74.0 ''Reactor'' ''Industrial'' 2000 70 77 115
             ''Industrial radiography'')]"
    by (simp add: filter_isotopes_filter keeps_def get_isotope_data_def DataFrame_def mk_isotope_def)
  have "(0 :: real) < 1" by simp
  with np_log10_unchecked [of 1 1 get_isotope_data 100000 "[''Industrial'']"]
  have "trace_z (make_3d_points (filter_isotopes get_isotope_data (1, 100000) [''Industrial'']))
      = map (\<lambda>ir. Finite (log 10 (Half_Life (snd ir))))
          (filter_isotopes get_isotope_data (1, 100000) [''Industrial''])"
    and "np_log10 1 = Finite (log 10 1)"
    by simp_all
  then show ?thesis
    by (simp add: f mk_isotope_def)
qed

text \<open>
  Half-lives of 0 and of -1 handed to the 3D trace give the coordinates \<open>-inf\<close> and
  NaN, and a row of cost 0 and production 0 handed to the scatter gives the point
  \<open>(0, 0)\<close>: values are returned, no error is raised.
\<close>

theorem log_half_life_counterexample:
  "trace_z (make_3d_points
      (DataFrame
         [mk_isotope ''X-0'' 0 ''Reactor'' ''Medical'' 100 5 1 1 ''none'',
          mk_isotope ''X-1'' (- 1) ''Reactor'' ''Medical'' 100 5 1 1 ''none'']))
     = [NegInf, NotANumber]
   \<and> map pt_x (points (make_scatter_points
      (DataFrame
         [mk_isotope ''X-2'' 6 ''Reactor'' ''Medical'' 0 0 1 1 ''none''])))
     = [0]
   \<and> map pt_y (points (make_scatter_points
      (DataFrame
         [mk_isotope ''X-2'' 6 ''Reactor'' ''Medical'' 0 0 1 1 ''none''])))
     = [0]"
  by (simp add: make_3d_points_def make_scatter_points_def DataFrame_def mk_isotope_def
      column_def np_log10_def)

lemma main_offline:
  "main w offline_environment =
       Inr \<lparr>fig_background =
              (if view_3d w then Some (create_atomic_background (\<lambda>k. 0)) else None),
            fig_isotopes =
              make_3d_points
                (filter_isotopes get_isotope_data (half_life_filter w) (selected_uses w)),
            download_data = to_csv get_isotope_data,
            fig_scatter = make_scatter_points get_isotope_data,
            fig_market_value =
              px_bar_market (make_market_value_bars get_isotope_data),
            fig_country =
              px_bar_country
                (make_country_bars
                   (clean_country_production Map.empty sample_country_data)),
            shown_warnings = []\<rparr>"
  by (simp add: main_def Let_def offline_environment_def load_country_data_def try_except_def)

text \<open>
  C9. The table serialised for download is the isotope catalog as loaded, not the
  filtered table: whatever the widgets and the environment, the page is rendered and
  its download holds all eight rows of the catalog in catalog order, under a header
  of the index column followed by the nine columns of the catalog in their order.
  No derived field is part of it: the market-value column is added to the table
  only later (line 273), and the logarithm of the half-life is never a column.
\<close>

theorem download_is_whole_catalog:
  "\<exists>pg. main w env = Inr pg
     \<and> download_data pg = to_csv get_isotope_data
     \<and> csv_header (download_data pg) = '''' # isotope_columns
     \<and> map (\<lambda>fs. fs ! 1) (csv_records (download_data pg)) =
         map FStr [''Tc-99m'', ''I-131'', ''Co-60'', ''Mo-99'', ''Xe-133'', ''Ir-192'',
                   ''C-14'', ''U-235'']
     \<and> ''Market_Value'' \<notin> set (csv_header (download_data pg))"
proof -
  from main_Inr [of env w] obtain pg
    where m: "main w env = Inr pg" and d: "download_data pg = to_csv get_isotope_data"
    by auto
  have h: "csv_header (to_csv get_isotope_data) = '''' # isotope_columns"
    by (simp add: to_csv_def)
  have r: "map (\<lambda>fs. fs ! 1) (csv_records (to_csv get_isotope_data)) =
         map FStr [''Tc-99m'', ''I-131'', ''Co-60'', ''Mo-99'', ''Xe-133'', ''Ir-192'',
                   ''C-14'', ''U-235'']"
    by (simp add: to_csv_def get_isotope_data_def DataFrame_def mk_isotope_def isotope_fields_def)
  have n: "''Market_Value'' \<notin> set ('''' # isotope_columns)"
    by (simp add: isotope_columns_def)
  from m d h r n show ?thesis by simp
qed

theorem download_is_whole_catalog_witness:
  "\<not> isl (main default_widgets offline_environment)
   \<and> length (csv_records (download_data (projr (main default_widgets offline_environment)))) = 8
   \<and> csv_header (download_data (projr (main default_widgets offline_environment)))
       = '''' # isotope_columns"
proof -
  from download_is_whole_catalog [of default_widgets offline_environment]
  obtain pg where m: "main default_widgets offline_environment = Inr pg"
    and h: "csv_header (download_data pg) = '''' # isotope_columns"
    and r: "map (\<lambda>fs. fs ! 1) (csv_records (download_data pg)) =
         map FStr [''Tc-99m'', ''I-131'', ''Co-60'', ''Mo-99'', ''Xe-133'', ''Ir-192'',
                   ''C-14'', ''U-235'']"
    by blast
  from r have "length (map (\<lambda>fs. fs ! 1) (csv_records (download_data pg))) = 8"
    by simp
  then have "length (csv_records (download_data pg)) = 8"
    by simp
  with m h show ?thesis by simp
qed

text \<open>
  With the widgets at their defaults six rows pass the filter, and the download has
  eight records and neither derived column in its header.
\<close>

theorem download_counterexample:
  "\<not> isl (main default_widgets offline_environment)
   \<and> length (filter_isotopes get_isotope_data (half_life_filter default_widgets)
               (selected_uses default_widgets)) = 6
   \<and> length (csv_records (download_data (projr (main default_widgets offline_environment)))) = 8
   \<and> ''Market_Value'' \<notin>
       set (csv_header (download_data (projr (main default_widgets offline_environment))))
   \<and> ''log_half_life'' \<notin>
       set (csv_header (download_data (projr (main default_widgets offline_environment))))"
  by (simp add: main_offline)
     (simp add: default_widgets_def filter_isotopes_filter keeps_def to_csv_def
        get_isotope_data_def DataFrame_def mk_isotope_def isotope_columns_def)

text \<open>
  C10. The half-life range and the list of uses reach the 3D isotope trace only.
  Changing them in any way, over the same environment, leaves the page as it was
  except for that trace; in particular the log-log scatter, the market-value bars
  and the country bars are the same, the first two being computed from the
  unfiltered catalog.
\<close>

theorem filter_reaches_3d_trace_only:
  "\<exists>p q. main w env = Inr p
     \<and> main (w\<lparr>half_life_filter := rng, selected_uses := uses\<rparr>) env = Inr q
     \<and> fig_scatter q = fig_scatter p
     \<and> fig_market_value q = fig_market_value p
     \<and> fig_country q = fig_country p
     \<and> fig_scatter p = make_scatter_points get_isotope_data
     \<and> fig_market_value p =
         px_bar_market (make_market_value_bars get_isotope_data)
     \<and> q = p\<lparr>fig_isotopes := make_3d_points (filter_isotopes get_isotope_data rng uses)\<rparr>"
proof -
  from main_Inr [of env w] obtain cdf ws p
    where l: "load_country_data (env_files env) = Inr (cdf, ws)"
      and p: "main w env = Inr p"
    by auto
  from l p show ?thesis
    by (auto simp: main_def Let_def)
qed

theorem filter_reaches_3d_trace_only_witness:
  "\<not> isl (main default_widgets offline_environment)
   \<and> fig_market_value
       (projr (main (default_widgets\<lparr>half_life_filter := (0.1, 10), selected_uses := [''Research'']\<rparr>)
                 offline_environment))
     = fig_market_value (projr (main default_widgets offline_environment))
   \<and> fig_country
       (projr (main (default_widgets\<lparr>half_life_filter := (0.1, 10), selected_uses := [''Research'']\<rparr>)
                 offline_environment))
     = fig_country (projr (main default_widgets offline_environment))
   \<and> fig_scatter
       (projr (main (default_widgets\<lparr>half_life_filter := (0.1, 10), selected_uses := [''Research'']\<rparr>)
                 offline_environment))
     = fig_scatter (projr (main default_widgets offline_environment))"
  using filter_reaches_3d_trace_only
    [where w = default_widgets and env = offline_environment and rng = "(0.1, 10)"
      and uses = "[''Research'']"]
  by auto

end
